theory Spec2Isabelle
  imports Main
begin

section \<open>Data model of InnerFormSchemaUtils.js\<close>

text \<open>
  The module turns a query-form schema (a list of field descriptors) into rows of column
  producers and, once the host form hands over its \<open>getFieldDecorator\<close>, into a tree of
  React elements. Strings are kept as byte sequences (UTF-8), so the template literal
  \<^verbatim>\<open>`${field.key}Begin`\<close> is list append.
\<close>

text \<open>One entry of \<open>field.options\<close>: the source reads \<open>option.key\<close> and \<open>option.value\<close>.\<close>

record opt =
  opt_key :: string
  opt_value :: string

text \<open>
  One schema entry. \<open>showType\<close> and \<open>dataType\<close> are compared against string literals by
  the source, so they stay strings. The three placeholders may be missing
  (\<open>undefined\<close> is \<open>None\<close>). \<open>options\<close> is read by the four choice transforms only, where
  the schema has to provide it; a field of another kind carries the empty list.
\<close>

record field =
  key :: string
  title :: string
  showType :: string
  dataType :: string
  options :: "opt list"
  placeholder :: "string option"
  placeholderBegin :: "string option"
  placeholderEnd :: "string option"

text \<open>React elements: a component, the \<open>key\<close> attribute, the other attributes, the children.\<close>

datatype component =
  Form | FormItem | Row | Col | DatePicker | Select | SelectOption | Radio | RadioGroup
  | CheckboxGroup | InputNumber | Input | Div

datatype jsx_key = KStr string | KNum nat

datatype attr =
  PStr string
  | PNum int
  | PDecimal int nat  \<comment> \<open>\<open>PDecimal m e\<close> is the literal \<open>m\<close> times ten to the minus \<open>e\<close>\<close>
  | PBool bool
  | PUndefined
  | PObj "(string \<times> attr) list"
  | PList "attr list"

datatype element =
  Element (etag: component) (ekey: "jsx_key option") (eprops: "(string \<times> attr) list")
    (echildren: "element list")
  | Text string

text \<open>Calls of the logger, in the order they are made.\<close>

datatype log_entry =
  LogDebug string field
  | LogError string string

text \<open>Calling \<open>null\<close> as a function is a \<open>TypeError\<close>.\<close>

datatype error = TypeError

text \<open>
  \<open>getFieldDecorator(key)(element)\<close> belongs to the host form; all that is known of it
  is that it takes a registration key and an element and gives an element back. A column
  producer is a closure waiting for it; running the closure yields the cell together with
  the registration keys it handed to \<open>getFieldDecorator\<close>, in call order. An entry of a
  row is such a closure or \<open>null\<close> (\<open>None\<close>).
\<close>

type_synonym decorator = "string \<Rightarrow> element \<Rightarrow> element"
type_synonym producer = "decorator \<Rightarrow> element \<times> string list"
type_synonym col = "producer option"

section \<open>String constants\<close>

text \<open>The Chinese default placeholders of the source, as UTF-8 bytes.\<close>

definition please_select :: string where
  "please_select =
    [CHR 0xE8, CHR 0xAF, CHR 0xB7, CHR 0xE9, CHR 0x80, CHR 0x89, CHR 0xE6, CHR 0x8B, CHR 0xA9]"

definition please_select_date :: string where
  "please_select_date =
    please_select @ [CHR 0xE6, CHR 0x97, CHR 0xA5, CHR 0xE6, CHR 0x9C, CHR 0x9F]"

definition min_value :: string where
  "min_value =
    [CHR 0xE6, CHR 0x9C, CHR 0x80, CHR 0xE5, CHR 0xB0, CHR 0x8F, CHR 0xE5, CHR 0x80, CHR 0xBC]"

definition max_value :: string where
  "max_value =
    [CHR 0xE6, CHR 0x9C, CHR 0x80, CHR 0xE5, CHR 0xA4, CHR 0xA7, CHR 0xE5, CHR 0x80, CHR 0xBC]"

definition begin_date :: string where
  "begin_date =
    [CHR 0xE5, CHR 0xBC, CHR 0x80, CHR 0xE5, CHR 0xA7, CHR 0x8B,
     CHR 0xE6, CHR 0x97, CHR 0xA5, CHR 0xE6, CHR 0x9C, CHR 0x9F]"

definition end_date :: string where
  "end_date =
    [CHR 0xE7, CHR 0xBB, CHR 0x93, CHR 0xE6, CHR 0x9D, CHR 0x9F,
     CHR 0xE6, CHR 0x97, CHR 0xA5, CHR 0xE6, CHR 0x9C, CHR 0x9F]"

definition datetime_format :: string where
  "datetime_format = ''YYYY-MM-DD HH:mm:ss''"

text \<open>\<open>a || b\<close> on an optional string: \<open>undefined\<close> and the empty string are falsy.\<close>

definition js_or :: "string option \<Rightarrow> string \<Rightarrow> string" where
  "js_or a b = (case a of None \<Rightarrow> b | Some s \<Rightarrow> if s = [] then b else s)"

text \<open>An attribute set from a value that may be \<open>undefined\<close>.\<close>

definition opt_prop :: "string option \<Rightarrow> attr" where
  "opt_prop a = (case a of None \<Rightarrow> PUndefined | Some s \<Rightarrow> PStr s)"

definition span :: "int \<Rightarrow> attr" where
  "span n = PObj [(''span'', PNum n)]"

section \<open>The transform functions\<close>

text \<open>One call \<open>getFieldDecorator(k)(e)\<close>: the decorated element, and \<open>k\<close> recorded.\<close>

definition decorate :: "string \<Rightarrow> element \<Rightarrow> producer" where
  "decorate k e = (\<lambda>getFieldDecorator. (getFieldDecorator k e, [k]))"

definition colWrapper :: "producer \<Rightarrow> field \<Rightarrow> producer" where
  "colWrapper formItem field = (\<lambda>getFieldDecorator.
     case formItem getFieldDecorator of (item, ks) \<Rightarrow>
       (Element Col (Some (KStr (key field))) [(''sm'', PNum 8)]
          [Element FormItem (Some (KStr (key field)))
             [(''label'', PStr (title field)), (''labelCol'', span 10), (''wrapperCol'', span 14)]
             [item]],
        ks))"

definition select_options :: "field \<Rightarrow> element list" where
  "select_options field =
     map (\<lambda>option. Element SelectOption (Some (KStr (opt_key option)))
            [(''value'', PStr (opt_key option))] [Text (opt_value option)])
       (options field)"

definition transformSelect :: "field \<Rightarrow> col \<times> log_entry list" where
  "transformSelect field =
     (Some (colWrapper
        (decorate (key field)
           (Element Select None
              [(''placeholder'', PStr (js_or (placeholder field) please_select)),
               (''size'', PStr ''default'')]
              (select_options field)))
        field),
      [LogDebug ''transform field %o to Select component'' field])"

definition transformRadio :: "field \<Rightarrow> col \<times> log_entry list" where
  "transformRadio field =
     (Some (colWrapper
        (decorate (key field)
           (Element RadioGroup None []
              (map (\<lambda>option. Element Radio (Some (KStr (opt_key option)))
                      [(''value'', PStr (opt_key option))] [Text (opt_value option)])
                 (options field))))
        field),
      [LogDebug ''transform field %o to Radio component'' field])"

definition transformCheckbox :: "field \<Rightarrow> col \<times> log_entry list" where
  "transformCheckbox field =
     (Some (colWrapper
        (decorate (key field)
           (Element CheckboxGroup None
              [(''options'',
                PList (map (\<lambda>option. PObj [(''label'', PStr (opt_value option)),
                                            (''value'', PStr (opt_key option))])
                         (options field)))]
              []))
        field),
      [LogDebug ''transform field %o to Checkbox component'' field])"

definition transformMultiSelect :: "field \<Rightarrow> col \<times> log_entry list" where
  "transformMultiSelect field =
     (Some (colWrapper
        (decorate (key field)
           (Element Select None
              [(''multiple'', PBool True),
               (''placeholder'', PStr (js_or (placeholder field) please_select)),
               (''size'', PStr ''default'')]
              (select_options field)))
        field),
      [LogDebug ''transform field %o to MultipleSelect component'' field])"

definition transformNormal :: "field \<Rightarrow> col \<times> log_entry list" where
  "transformNormal field =
     (if dataType field = ''int'' then
        (Some (colWrapper
           (decorate (key field) (Element InputNumber None [(''size'', PStr ''default'')] []))
           field),
         [LogDebug ''transform field %o to integer input component'' field])
      else if dataType field = ''float'' then
        (Some (colWrapper
           (decorate (key field)
              (Element InputNumber None [(''step'', PDecimal 1 2), (''size'', PStr ''default'')] []))
           field),
         [LogDebug ''transform field %o to float input component'' field])
      else if dataType field = ''datetime'' then
        (Some (colWrapper
           (decorate (key field)
              (Element DatePicker None
                 [(''showTime'', PBool True), (''format'', PStr datetime_format),
                  (''placeholder'', PStr (js_or (placeholder field) please_select_date))]
                 []))
           field),
         [LogDebug ''transform field %o to datetime input component'' field])
      else
        (Some (colWrapper
           (decorate (key field)
              (Element Input None
                 [(''placeholder'', opt_prop (placeholder field)), (''size'', PStr ''default'')]
                 []))
           field),
         [LogDebug ''transform field %o to varchar input component'' field]))"

definition betweenColWrapper :: "producer \<Rightarrow> producer \<Rightarrow> field \<Rightarrow> producer" where
  "betweenColWrapper beginFormItem endFormItem field = (\<lambda>getFieldDecorator.
     case beginFormItem getFieldDecorator of (beginItem, ks1) \<Rightarrow>
     case endFormItem getFieldDecorator of (endItem, ks2) \<Rightarrow>
       (Element Col (Some (KStr (key field @ ''Begin''))) [(''sm'', PNum 8)]
          [Element Row None []
             [Element Col None [(''span'', PNum 16)]
                [Element FormItem (Some (KStr (key field @ ''Begin'')))
                   [(''label'', PStr (title field)), (''labelCol'', span 15),
                    (''wrapperCol'', span 9)]
                   [beginItem]],
              Element Col None [(''span'', PNum 7), (''offset'', PNum 1)]
                [Element FormItem (Some (KStr (key field @ ''End'')))
                   [(''labelCol'', span 10), (''wrapperCol'', span 14)]
                   [endItem]]]],
        ks1 @ ks2))"

text \<open>The closure of the \<open>datetime\<close> case of \<open>transformBetween\<close>.\<close>

definition datetimeBetween :: "field \<Rightarrow> producer" where
  "datetimeBetween field = (\<lambda>getFieldDecorator.
     case decorate (key field @ ''Begin'')
            (Element DatePicker None
               [(''showTime'', PBool True), (''format'', PStr datetime_format),
                (''placeholder'', PStr (js_or (placeholderBegin field) begin_date))] [])
            getFieldDecorator of (beginItem, ks1) \<Rightarrow>
     case decorate (key field @ ''End'')
            (Element DatePicker None
               [(''showTime'', PBool True), (''format'', PStr datetime_format),
                (''placeholder'', PStr (js_or (placeholderEnd field) end_date))] [])
            getFieldDecorator of (endItem, ks2) \<Rightarrow>
       (Element Div (Some (KStr ''datetimeBetweenDiv'')) []
          [Element Col (Some (KStr (key field @ ''Begin''))) [(''sm'', PNum 8)]
             [Element FormItem (Some (KStr (key field @ ''Begin'')))
                [(''label'', PStr (title field)), (''labelCol'', span 10),
                 (''wrapperCol'', span 14)]
                [beginItem]],
           Element Col (Some (KStr (key field @ ''End''))) [(''sm'', PNum 8)]
             [Element FormItem (Some (KStr (key field @ ''End'')))
                [(''labelCol'', span 10), (''wrapperCol'', span 14)]
                [endItem]]],
        ks1 @ ks2))"

definition transformBetween :: "field \<Rightarrow> col \<times> log_entry list" where
  "transformBetween field =
     (if dataType field = ''int'' then
        (Some (betweenColWrapper
           (decorate (key field @ ''Begin'')
              (Element InputNumber None
                 [(''size'', PStr ''default''),
                  (''placeholder'', PStr (js_or (placeholderBegin field) min_value))] []))
           (decorate (key field @ ''End'')
              (Element InputNumber None
                 [(''size'', PStr ''default''),
                  (''placeholder'', PStr (js_or (placeholderEnd field) max_value))] []))
           field),
         [LogDebug ''transform field %o to integer BETWEEN component'' field])
      else if dataType field = ''float'' then
        (Some (betweenColWrapper
           (decorate (key field @ ''Begin'')
              (Element InputNumber None
                 [(''step'', PDecimal 1 2), (''size'', PStr ''default''),
                  (''placeholder'', PStr (js_or (placeholderBegin field) min_value))] []))
           (decorate (key field @ ''End'')
              (Element InputNumber None
                 [(''step'', PDecimal 1 2), (''size'', PStr ''default''),
                  (''placeholder'', PStr (js_or (placeholderEnd field) max_value))] []))
           field),
         [LogDebug ''transform field %o to float BETWEEN component'' field])
      else if dataType field = ''datetime'' then
        (Some (datetimeBetween field),
         [LogDebug ''transform field %o to datetime BETWEEN component'' field])
      else
        (None, [LogError ''unknown dataType: %s'' (dataType field)]))"

section \<open>parse: packing the rows\<close>

text \<open>The \<open>switch\<close> on \<open>field.showType\<close> inside the loop of \<open>parse\<close>.\<close>

definition transform :: "field \<Rightarrow> col \<times> log_entry list" where
  "transform field =
     (if showType field = ''select'' then transformSelect field
      else if showType field = ''radio'' then transformRadio field
      else if showType field = ''checkbox'' then transformCheckbox field
      else if showType field = ''multiSelect'' then transformMultiSelect field
      else if showType field = ''between'' then transformBetween field
      else transformNormal field)"

text \<open>The local \<open>spaceNeed\<close> of the loop body.\<close>

definition spaceNeed :: "field \<Rightarrow> int" where
  "spaceNeed field =
     (if showType field = ''between'' \<and> dataType field = ''datetime'' then 16 else 8)"

text \<open>The variables the loop of \<open>parse\<close> updates, and the logger calls made so far.\<close>

record parse_state =
  rows :: "col list list"
  cols :: "col list"
  spaceLeft :: int
  logged :: "log_entry list"

definition parse_init :: parse_state where
  "parse_init = \<lparr>rows = [], cols = [], spaceLeft = 24, logged = []\<rparr>"

text \<open>The row break at the head of the loop body.\<close>

definition new_row :: "parse_state \<Rightarrow> field \<Rightarrow> parse_state" where
  "new_row st field =
     (if spaceLeft st < spaceNeed field
      then st\<lparr>rows := rows st @ [cols st], cols := [], spaceLeft := 24\<rparr>
      else st)"

text \<open>One iteration of \<open>schema.forEach\<close>.\<close>

definition parse_step :: "parse_state \<Rightarrow> field \<Rightarrow> parse_state" where
  "parse_step st field =
     (let st1 = new_row st field in
      case transform field of (c, msgs) \<Rightarrow>
        st1\<lparr>cols := cols st1 @ [c],
            spaceLeft := spaceLeft st1 - spaceNeed field,
            logged := logged st1 @ msgs\<rparr>)"

definition parse_loop :: "field list \<Rightarrow> parse_state" where
  "parse_loop schema = foldl parse_step parse_init schema"

text \<open>The value of \<open>rows\<close> when \<open>parse\<close> returns: the last row is pushed if it is not empty.\<close>

definition close_rows :: "'a list list \<Rightarrow> 'a list \<Rightarrow> 'a list list" where
  "close_rows rs cs = (if length cs > 0 then rs @ [cs] else rs)"

definition parse_rows :: "field list \<Rightarrow> col list list" where
  "parse_rows schema = (let st = parse_loop schema in close_rows (rows st) (cols st))"

definition parse_log :: "field list \<Rightarrow> log_entry list" where
  "parse_log schema = logged (parse_loop schema)"

section \<open>The returned render function\<close>

text \<open>
  The inner \<open>for ... of\<close> loop: every entry of the row is called with
  \<open>getFieldDecorator\<close>; calling a \<open>null\<close> entry throws, and the keys registered until then
  stay registered.
\<close>

fun formCols_loop ::
  "decorator \<Rightarrow> col list \<Rightarrow> element list \<Rightarrow> string list \<Rightarrow> (error + element list) \<times> string list"
where
  "formCols_loop gfd [] formCols ks = (Inr formCols, ks)"
| "formCols_loop gfd (None # cs) formCols ks = (Inl TypeError, ks)"
| "formCols_loop gfd (Some c # cs) formCols ks =
     (case c gfd of (e, ks') \<Rightarrow> formCols_loop gfd cs (formCols @ [e]) (ks @ ks'))"

text \<open>The outer loop over \<open>rows\<close>, with its index \<open>i\<close>.\<close>

fun formRows_loop ::
  "decorator \<Rightarrow> col list list \<Rightarrow> nat \<Rightarrow> element list \<Rightarrow> string list
     \<Rightarrow> (error + element list) \<times> string list"
where
  "formRows_loop gfd [] i formRows ks = (Inr formRows, ks)"
| "formRows_loop gfd (r # rs) i formRows ks =
     (case formCols_loop gfd r [] ks of
        (Inl err, ks') \<Rightarrow> (Inl err, ks')
      | (Inr formCols, ks') \<Rightarrow>
          formRows_loop gfd rs (i + 1)
            (formRows @ [Element Row (Some (KNum i)) [(''gutter'', PNum 16)] formCols]) ks')"

definition render :: "col list list \<Rightarrow> decorator \<Rightarrow> (error + element) \<times> string list" where
  "render rs gfd =
     (case formRows_loop gfd rs 0 [] [] of
        (Inl err, ks) \<Rightarrow> (Inl err, ks)
      | (Inr formRows, ks) \<Rightarrow> (Inr (Element Form None [(''horizontal'', PBool True)] formRows), ks))"

text \<open>\<open>parse(schema)\<close> is the closure over the finished \<open>rows\<close>.\<close>

definition parse :: "field list \<Rightarrow> decorator \<Rightarrow> (error + element) \<times> string list" where
  "parse schema = render (parse_rows schema)"

section \<open>Vocabulary of the properties\<close>

text \<open>The row entry \<open>parse\<close> pushes for a field, and what running it yields.\<close>

definition column :: "field \<Rightarrow> col" where
  "column field = fst (transform field)"

definition run_column :: "field \<Rightarrow> decorator \<Rightarrow> (element \<times> string list) option" where
  "run_column field gfd = map_option (\<lambda>p. p gfd) (column field)"

definition cell_of :: "decorator \<Rightarrow> field \<Rightarrow> element" where
  "cell_of gfd field = (case column field of Some p \<Rightarrow> fst (p gfd) | None \<Rightarrow> Text [])"

text \<open>The grid units a list of fields occupies.\<close>

definition row_width :: "field list \<Rightarrow> int" where
  "row_width fs = sum_list (map spaceNeed fs)"

text \<open>
  The rows of \<open>parse\<close> hold closures, which do not tell which field they came from. To
  speak about the fields of a row, \<open>field_rows\<close> packs the fields themselves: a field
  opens a new row when the units left by the current one do not suffice. Lemma
  \<open>parse_rows_field_rows\<close> shows that the rows of \<open>parse\<close> are exactly these rows,
  entry by entry.
\<close>

definition place :: "field list list \<times> field list \<Rightarrow> field \<Rightarrow> field list list \<times> field list" where
  "place p field =
     (case p of (frs, fcs) \<Rightarrow>
        if 24 - row_width fcs < spaceNeed field then (frs @ [fcs], [field])
        else (frs, fcs @ [field]))"

definition field_rows :: "field list \<Rightarrow> field list list" where
  "field_rows schema = (case foldl place ([], []) schema of (frs, fcs) \<Rightarrow> close_rows frs fcs)"

text \<open>The loop invariants used below.\<close>

definition linked :: "parse_state \<Rightarrow> field list list \<times> field list \<Rightarrow> bool" where
  "linked st p \<longleftrightarrow>
     rows st = map (map column) (fst p) \<and> cols st = map column (snd p) \<and>
     spaceLeft st = 24 - row_width (snd p)"

definition packed :: "field list list \<times> field list \<Rightarrow> bool" where
  "packed p \<longleftrightarrow>
     (\<forall>r \<in> set (fst p). r \<noteq> [] \<and> row_width r \<le> 24) \<and> row_width (snd p) \<le> 24 \<and>
     (fst p \<noteq> [] \<longrightarrow> snd p \<noteq> [])"

definition thirds :: "field list list \<times> field list \<Rightarrow> bool" where
  "thirds p \<longleftrightarrow>
     (\<forall>r \<in> set (fst p). length r = 3) \<and> length (snd p) \<le> 3 \<and>
     (\<forall>f \<in> set (snd p). spaceNeed f = 8) \<and> (fst p \<noteq> [] \<longrightarrow> snd p \<noteq> [])"

definition same_shape ::
  "field list list \<times> field list \<Rightarrow> field list list \<times> field list \<Rightarrow> bool" where
  "same_shape p q \<longleftrightarrow>
     map length (fst p) = map length (fst q) \<and> map spaceNeed (snd p) = map spaceNeed (snd q)"

text \<open>
  A field is supported unless it is a \<open>between\<close> field whose \<open>dataType\<close> is none of the
  three that \<open>transformBetween\<close> handles.
\<close>

definition supported :: "field \<Rightarrow> bool" where
  "supported f \<longleftrightarrow>
     (showType f = ''between'' \<longrightarrow> dataType f \<in> {''int'', ''float'', ''datetime''})"

definition datetime_between :: "field \<Rightarrow> bool" where
  "datetime_between f \<longleftrightarrow> showType f = ''between'' \<and> dataType f = ''datetime''"

text \<open>The registration keys the schema's data model foresees for a field.\<close>

definition reg_keys :: "field \<Rightarrow> string list" where
  "reg_keys f =
     (if showType f = ''between'' then [key f @ ''Begin'', key f @ ''End''] else [key f])"

text \<open>
  Field keys are pairwise distinct, and no key of a field that is not a \<open>between\<close> field
  is another field's key followed by \<open>Begin\<close> or \<open>End\<close>.
\<close>

definition collision_free :: "field list \<Rightarrow> bool" where
  "collision_free schema \<longleftrightarrow>
     distinct (map key schema) \<and>
     (\<forall>f \<in> set schema. \<forall>g \<in> set schema.
        showType f \<noteq> ''between'' \<and> g \<noteq> f \<longrightarrow>
          key f \<noteq> key g @ ''Begin'' \<and> key f \<noteq> key g @ ''End'')"

text \<open>The rendered rows of a plan given by its fields, numbered from \<open>i\<close>.\<close>

fun row_elems :: "decorator \<Rightarrow> nat \<Rightarrow> field list list \<Rightarrow> element list" where
  "row_elems gfd i [] = []"
| "row_elems gfd i (r # rs) =
     Element Row (Some (KNum i)) [(''gutter'', PNum 16)] (map (cell_of gfd) r)
       # row_elems gfd (i + 1) rs"

text \<open>The \<open>key\<close> attributes of the elements that the rows of a rendered form hold.\<close>

definition cell_keys :: "element \<Rightarrow> jsx_key option list" where
  "cell_keys form = concat (map (\<lambda>row. map ekey (echildren row)) (echildren form))"

section \<open>Example schema entries\<close>

definition name_field :: field where
  "name_field = \<lparr>key = ''name'', title = ''Name'', showType = ''normal'', dataType = ''varchar'',
     options = [], placeholder = None, placeholderBegin = None, placeholderEnd = None\<rparr>"

definition city_field :: field where
  "city_field = \<lparr>key = ''city'', title = ''City'', showType = ''normal'', dataType = ''varchar'',
     options = [], placeholder = Some ''city of residence'', placeholderBegin = None,
     placeholderEnd = None\<rparr>"

definition email_field :: field where
  "email_field = \<lparr>key = ''email'', title = ''Email'', showType = ''normal'',
     dataType = ''varchar'', options = [], placeholder = None, placeholderBegin = None,
     placeholderEnd = None\<rparr>"

definition age_field :: field where
  "age_field = \<lparr>key = ''age'', title = ''Age'', showType = ''between'', dataType = ''int'',
     options = [], placeholder = None, placeholderBegin = None, placeholderEnd = None\<rparr>"

definition created_field :: field where
  "created_field = \<lparr>key = ''created'', title = ''Created'', showType = ''between'',
     dataType = ''datetime'', options = [], placeholder = None, placeholderBegin = None,
     placeholderEnd = None\<rparr>"

definition updated_field :: field where
  "updated_field = \<lparr>key = ''updated'', title = ''Updated'', showType = ''between'',
     dataType = ''datetime'', options = [], placeholder = None, placeholderBegin = None,
     placeholderEnd = None\<rparr>"

text \<open>A \<open>between\<close> field over text: \<open>transformBetween\<close> has no case for it.\<close>

definition score_field :: field where
  "score_field = \<lparr>key = ''score'', title = ''Score'', showType = ''between'',
     dataType = ''varchar'', options = [], placeholder = None, placeholderBegin = None,
     placeholderEnd = None\<rparr>"

text \<open>Any field, made a \<open>select\<close> over the two options \<open>a/A\<close> and \<open>b/B\<close>.\<close>

definition ab_select :: "field \<Rightarrow> field" where
  "ab_select f = f\<lparr>showType := ''select'',
     options := [\<lparr>opt_key = ''a'', opt_value = ''A''\<rparr>, \<lparr>opt_key = ''b'', opt_value = ''B''\<rparr>]\<rparr>"

text \<open>Any field, made a \<open>between\<close> field of the given \<open>dataType\<close>.\<close>

definition as_between :: "field \<Rightarrow> string \<Rightarrow> field" where
  "as_between f dt = f\<lparr>showType := ''between'', dataType := dt\<rparr>"

text \<open>A decorator that hands the element back unchanged.\<close>

definition plain_decorator :: decorator where
  "plain_decorator k e = e"

section \<open>Lemmas on the packing loop\<close>

lemmas transform_defs =
  transform_def transformSelect_def transformRadio_def transformCheckbox_def
  transformMultiSelect_def transformNormal_def transformBetween_def
  colWrapper_def betweenColWrapper_def datetimeBetween_def decorate_def

lemmas loop_defs =
  parse_def render_def parse_rows_def parse_log_def parse_loop_def parse_step_def new_row_def
  parse_init_def close_rows_def spaceNeed_def

lemmas fixture_defs =
  name_field_def city_field_def email_field_def age_field_def created_field_def
  updated_field_def score_field_def plain_decorator_def

lemmas ghost_defs = field_rows_def place_def row_width_def close_rows_def spaceNeed_def

lemma spaceNeed_cases: "spaceNeed f = 8 \<or> spaceNeed f = 16"
  by (simp add: spaceNeed_def)

lemma linked_init: "linked parse_init ([], [])"
  by (simp add: linked_def parse_init_def row_width_def)

lemma linked_step: "linked st p \<Longrightarrow> linked (parse_step st f) (place p f)"
  by (cases p; cases "transform f")
     (auto simp: linked_def parse_step_def new_row_def place_def column_def row_width_def Let_def)

lemma linked_foldl: "linked st p \<Longrightarrow> linked (foldl parse_step st fs) (foldl place p fs)"
  by (induction fs arbitrary: st p) (simp_all add: linked_step)

lemma loop_linked: "linked (parse_loop pre) (foldl place ([], []) pre)"
  unfolding parse_loop_def by (rule linked_foldl [OF linked_init])

lemma parse_rows_field_rows: "parse_rows schema = map (map column) (field_rows schema)"
  using loop_linked [of schema]
  by (cases "foldl place ([], []) schema")
     (auto simp: linked_def parse_rows_def field_rows_def close_rows_def Let_def)

lemma packed_step: "packed p \<Longrightarrow> packed (place p f)"
  using spaceNeed_cases [of f]
  by (cases p) (auto simp: packed_def place_def row_width_def)

lemma packed_foldl: "packed p \<Longrightarrow> packed (foldl place p fs)"
  by (induction fs arbitrary: p) (simp_all add: packed_step)

lemma concat_place: "concat (fst (place p f)) @ snd (place p f) = (concat (fst p) @ snd p) @ [f]"
  by (cases p) (simp add: place_def)

lemma concat_foldl_place:
  "concat (fst (foldl place p fs)) @ snd (foldl place p fs) = (concat (fst p) @ snd p) @ fs"
  by (induction fs arbitrary: p) (simp_all add: concat_place)

lemma concat_field_rows: "concat (field_rows schema) = schema"
  using concat_foldl_place [of "([], [])" schema]
  by (cases "foldl place ([], []) schema") (auto simp: field_rows_def close_rows_def)

lemma concat_parse_rows: "concat (parse_rows schema) = map column schema"
  by (simp add: parse_rows_field_rows concat_field_rows flip: map_concat)

lemma field_rows_packed: "r \<in> set (field_rows schema) \<Longrightarrow> r \<noteq> [] \<and> row_width r \<le> 24"
  using packed_foldl [of "([], [])" schema]
  by (cases "foldl place ([], []) schema")
     (auto simp: field_rows_def close_rows_def packed_def row_width_def split: if_splits)

lemma close_needs_cols: "spaceLeft (parse_loop pre) < spaceNeed f \<Longrightarrow> cols (parse_loop pre) \<noteq> []"
  using loop_linked [of pre] spaceNeed_cases [of f]
  by (auto simp: linked_def row_width_def)

lemma parse_rows_nonempty: "r \<in> set (parse_rows schema) \<Longrightarrow> r \<noteq> []"
  using field_rows_packed [of _ schema] by (auto simp: parse_rows_field_rows)

lemma row_width_all8: "\<forall>f \<in> set fs. spaceNeed f = 8 \<Longrightarrow> row_width fs = 8 * int (length fs)"
  by (induction fs) (simp_all add: row_width_def)

lemma thirds_step: "thirds p \<Longrightarrow> spaceNeed f = 8 \<Longrightarrow> thirds (place p f)"
  by (cases p) (auto simp: thirds_def place_def row_width_all8)

lemma thirds_foldl: "thirds p \<Longrightarrow> \<forall>f \<in> set fs. spaceNeed f = 8 \<Longrightarrow> thirds (foldl place p fs)"
  by (induction fs arbitrary: p) (simp_all add: thirds_step)

lemma field_rows_thirds:
  assumes "\<forall>f \<in> set schema. spaceNeed f = 8"
  shows "(\<forall>r \<in> set (butlast (field_rows schema)). length r = 3) \<and>
         (\<forall>r \<in> set (field_rows schema). 1 \<le> length r \<and> length r \<le> 3)"
proof -
  have "thirds (foldl place ([], []) schema)"
    by (rule thirds_foldl) (simp_all add: thirds_def assms)
  then show ?thesis
    by (cases "foldl place ([], []) schema")
       (auto simp: field_rows_def close_rows_def thirds_def Suc_le_eq split: if_splits)
qed

lemma same_shape_step:
  "same_shape p q \<Longrightarrow> spaceNeed f = spaceNeed g \<Longrightarrow> same_shape (place p f) (place q g)"
  by (cases p; cases q)
     (auto simp: same_shape_def place_def row_width_def dest: map_eq_imp_length_eq)

lemma same_shape_foldl:
  "map spaceNeed s = map spaceNeed s' \<Longrightarrow> same_shape p q \<Longrightarrow>
   same_shape (foldl place p s) (foldl place q s')"
proof (induction s arbitrary: s' p q)
  case Nil
  then show ?case by simp
next
  case (Cons f s)
  then obtain g t where s': "s' = g # t" by (cases s') auto
  with Cons.prems have "spaceNeed f = spaceNeed g" "map spaceNeed s = map spaceNeed t"
    by simp_all
  with Cons.IH [of t "place p f" "place q g"] Cons.prems(2) s' show ?case
    by (simp add: same_shape_step)
qed

lemma row_lengths_widths:
  assumes "map spaceNeed s = map spaceNeed s'"
  shows "map length (parse_rows s) = map length (parse_rows s')"
proof -
  have "same_shape (foldl place ([], []) s) (foldl place ([], []) s')"
    by (rule same_shape_foldl [OF assms]) (simp add: same_shape_def)
  then have "map length (field_rows s) = map length (field_rows s')"
    by (cases "foldl place ([], []) s"; cases "foldl place ([], []) s'")
       (auto simp: same_shape_def field_rows_def close_rows_def dest: map_eq_imp_length_eq)
  then show ?thesis
    by (simp add: parse_rows_field_rows comp_def)
qed

section \<open>Lemmas on rendering\<close>

lemma column_None: "column f = None \<longleftrightarrow> \<not> supported f"
  by (simp add: column_def supported_def transform_defs)

lemma column_keys: "column f = Some p \<Longrightarrow> snd (p gfd) = reg_keys f"
  by (auto simp: column_def reg_keys_def transform_defs split: if_splits)

lemma formCols_loop_supported:
  "\<forall>f \<in> set fs. supported f \<Longrightarrow>
   formCols_loop gfd (map column fs) acc ks =
     (Inr (acc @ map (cell_of gfd) fs), ks @ concat (map reg_keys fs))"
proof (induction fs arbitrary: acc ks)
  case Nil
  then show ?case by simp
next
  case (Cons f fs)
  then obtain p where p: "column f = Some p"
    using column_None [of f] by auto
  obtain e ks' where r: "p gfd = (e, ks')" by (cases "p gfd")
  have "ks' = reg_keys f" using column_keys [OF p, of gfd] r by simp
  with Cons p r show ?case by (simp add: cell_of_def)
qed

lemma formCols_loop_null:
  "None \<in> set cs \<Longrightarrow> fst (formCols_loop gfd cs acc ks) = Inl TypeError"
proof (induction cs arbitrary: acc ks)
  case Nil
  then show ?case by simp
next
  case (Cons c cs)
  show ?case
  proof (cases c)
    case None
    then show ?thesis by simp
  next
    case (Some p)
    with Cons show ?thesis by (cases "p gfd") simp
  qed
qed

lemma formCols_loop_sound:
  "fst (formCols_loop gfd cs acc ks) = Inl TypeError \<or>
   (\<exists>es. fst (formCols_loop gfd cs acc ks) = Inr es \<and> None \<notin> set cs)"
proof (induction cs arbitrary: acc ks)
  case Nil
  then show ?case by simp
next
  case (Cons c cs)
  show ?case
  proof (cases c)
    case None
    then show ?thesis by simp
  next
    case (Some p)
    obtain e ks' where "p gfd = (e, ks')" by (cases "p gfd")
    with Some Cons [of "acc @ [e]" "ks @ ks'"] show ?thesis by auto
  qed
qed

lemma formRows_loop_supported:
  "\<forall>f \<in> set (concat frs). supported f \<Longrightarrow>
   formRows_loop gfd (map (map column) frs) i acc ks =
     (Inr (acc @ row_elems gfd i frs), ks @ concat (map reg_keys (concat frs)))"
proof (induction frs arbitrary: i acc ks)
  case Nil
  then show ?case by simp
next
  case (Cons r frs)
  then have "\<forall>f \<in> set r. supported f" and "\<forall>f \<in> set (concat frs). supported f"
    by auto
  then show ?case
    using Cons.IH by (simp add: formCols_loop_supported)
qed

lemma formRows_loop_null:
  "None \<in> set (concat rs) \<Longrightarrow> fst (formRows_loop gfd rs i acc ks) = Inl TypeError"
proof (induction rs arbitrary: i acc ks)
  case Nil
  then show ?case by simp
next
  case (Cons r rs)
  obtain res ks' where l: "formCols_loop gfd r [] ks = (res, ks')"
    by (cases "formCols_loop gfd r [] ks")
  show ?case
  proof (cases res)
    case (Inl err)
    with formCols_loop_sound [of gfd r "[]" ks] l have "res = Inl TypeError" by auto
    with l show ?thesis by simp
  next
    case (Inr es)
    with formCols_loop_null [of r gfd "[]" ks] l have "None \<notin> set r" by auto
    with Cons.prems have "None \<in> set (concat rs)" by simp
    from Cons.IH [OF this] l Inr show ?thesis by simp
  qed
qed

lemma parse_supported:
  assumes "\<forall>f \<in> set schema. supported f"
  shows "parse schema gfd =
     (Inr (Element Form None [(''horizontal'', PBool True)] (row_elems gfd 0 (field_rows schema))),
      concat (map reg_keys schema))"
proof -
  from assms have "\<forall>f \<in> set (concat (field_rows schema)). supported f"
    by (simp add: concat_field_rows)
  from formRows_loop_supported [OF this, of gfd 0 "[]" "[]"] show ?thesis
    by (simp add: parse_def render_def parse_rows_field_rows concat_field_rows)
qed

lemma parse_null:
  assumes "f \<in> set schema" and "\<not> supported f"
  shows "fst (parse schema gfd) = Inl TypeError"
proof -
  from assms have "None \<in> set (concat (parse_rows schema))"
    using column_None [of f] by (auto simp: concat_parse_rows intro: rev_image_eqI)
  from formRows_loop_null [OF this, of gfd 0 "[]" "[]"] show ?thesis
    by (cases "formRows_loop gfd (parse_rows schema) 0 [] []")
       (auto simp: parse_def render_def)
qed

section \<open>Lemmas on keys\<close>

lemma Begin_neq_End: "a @ ''Begin'' \<noteq> b @ ''End''"
proof
  assume "a @ ''Begin'' = b @ ''End''"
  then have "last (a @ ''Begin'') = last (b @ ''End'')" by simp
  then show False by simp
qed

lemma collision_free_tail: "collision_free (f # fs) \<Longrightarrow> collision_free fs"
  by (auto simp: collision_free_def)

lemma reg_keys_disjoint:
  assumes "collision_free (f # fs)" and "g \<in> set fs"
  shows "set (reg_keys f) \<inter> set (reg_keys g) = {}"
proof -
  from assms have kn: "key f \<noteq> key g" and ne: "g \<noteq> f"
    by (auto simp: collision_free_def)
  from assms ne have fg: "showType f \<noteq> ''between'' \<Longrightarrow>
      key f \<noteq> key g @ ''Begin'' \<and> key f \<noteq> key g @ ''End''"
    by (simp add: collision_free_def)
  from assms ne have gf: "showType g \<noteq> ''between'' \<Longrightarrow>
      key g \<noteq> key f @ ''Begin'' \<and> key g \<noteq> key f @ ''End''"
    by (auto simp: collision_free_def)
  show ?thesis
    using kn fg gf Begin_neq_End [of "key f" "key g"] Begin_neq_End [of "key g" "key f"]
    by (auto simp: reg_keys_def)
qed

lemma reg_keys_distinct: "collision_free schema \<Longrightarrow> distinct (concat (map reg_keys schema))"
proof (induction schema)
  case Nil
  then show ?case by simp
next
  case (Cons f fs)
  have d: "distinct (reg_keys f)"
    by (simp add: reg_keys_def)
  have "set (reg_keys f) \<inter> set (concat (map reg_keys fs)) = {}"
    using reg_keys_disjoint [OF Cons.prems] by auto
  with d Cons.IH [OF collision_free_tail [OF Cons.prems]] show ?case
    by simp
qed

lemma reg_keys_count:
  "length (concat (map reg_keys schema)) =
     length (filter (\<lambda>f. showType f \<noteq> ''between'') schema) +
     2 * length (filter (\<lambda>f. showType f = ''between'') schema)"
  by (induction schema) (simp_all add: reg_keys_def)

lemma cell_of_datetime:
  "datetime_between f \<Longrightarrow> ekey (cell_of gfd f) = Some (KStr ''datetimeBetweenDiv'')"
  by (simp add: datetime_between_def cell_of_def column_def transform_defs)

lemma row_elems_keys:
  "concat (map (\<lambda>row. map ekey (echildren row)) (row_elems gfd i frs)) =
     map (\<lambda>f. ekey (cell_of gfd f)) (concat frs)"
  by (induction frs arbitrary: i) (simp_all add: comp_def)

lemma two_equal_not_distinct:
  "2 \<le> length (filter P xs) \<Longrightarrow> \<forall>x \<in> set xs. P x \<longrightarrow> h x = c \<Longrightarrow> \<not> distinct (map h xs)"
proof (induction xs)
  case Nil
  then show ?case by simp
next
  case (Cons x xs)
  show ?case
  proof (cases "P x")
    case True
    with Cons.prems have "1 \<le> length (filter P xs)" by simp
    then have "filter P xs \<noteq> []" by auto
    then obtain y where "y \<in> set xs" "P y"
      by (metis filter_False)
    with Cons.prems True have "h y = h x" by simp
    with \<open>y \<in> set xs\<close> have "h x \<in> h ` set xs" by (metis imageI)
    then show ?thesis by simp
  next
    case False
    with Cons show ?thesis by simp
  qed
qed

section \<open>Properties of the row packing\<close>

text \<open>
  C1. For every schema, the rows of the plan that \<open>parse\<close> builds are the rows of
  \<open>field_rows\<close> entry by entry, these rows hold the fields of the schema in order, and
  the width of each of them (16 units for a \<open>between\<close>/\<open>datetime\<close> field, 8 for any
  other) is at most 24. A field that needs more than the current row has left closes that
  row and becomes the first entry of a new one, which then has 24 units minus the field's
  width left.
\<close>

theorem rows_fit_grid:
  "parse_rows schema = map (map column) (field_rows schema) \<and>
   concat (field_rows schema) = schema \<and>
   (\<forall>r \<in> set (field_rows schema). row_width r \<le> 24) \<and>
   (spaceLeft st < spaceNeed field \<longrightarrow>
      rows (parse_step st field) = rows st @ [cols st] \<and>
      cols (parse_step st field) = [column field] \<and>
      spaceLeft (parse_step st field) = 24 - spaceNeed field)"
proof (intro conjI impI ballI)
  show "parse_rows schema = map (map column) (field_rows schema)"
    by (rule parse_rows_field_rows)
  show "concat (field_rows schema) = schema"
    by (rule concat_field_rows)
  show "row_width r \<le> 24" if "r \<in> set (field_rows schema)" for r
    using field_rows_packed [OF that] by simp
next
  assume less: "spaceLeft st < spaceNeed field"
  obtain c msgs where t: "transform field = (c, msgs)" by (cases "transform field")
  from less t show "rows (parse_step st field) = rows st @ [cols st]"
    by (simp add: parse_step_def new_row_def)
  from less t show "cols (parse_step st field) = [column field]"
    by (simp add: parse_step_def new_row_def column_def)
  from less t show "spaceLeft (parse_step st field) = 24 - spaceNeed field"
    by (simp add: parse_step_def new_row_def)
qed

text \<open>
  A schema of widths 8, 16, 8, 16: two full rows, the third field opening the second row.
\<close>

theorem rows_fit_grid_witness:
  "field_rows [name_field, created_field, age_field, updated_field] =
     [[name_field, created_field], [age_field, updated_field]] \<and>
   parse_rows [name_field, created_field, age_field, updated_field] =
     [[column name_field, column created_field], [column age_field, column updated_field]] \<and>
   row_width [name_field, created_field] = 24 \<and>
   row_width [age_field, updated_field] = 24 \<and>
   spaceLeft (parse_loop [name_field, created_field]) = 0 \<and>
   spaceNeed age_field = 8 \<and>
   cols (parse_step (parse_loop [name_field, created_field]) age_field) = [column age_field]"
  using rows_fit_grid [of "[name_field, created_field, age_field, updated_field]"
      "parse_loop [name_field, created_field]" age_field]
  by (simp add: ghost_defs fixture_defs parse_loop_def parse_step_def new_row_def parse_init_def
      split: prod.splits)

text \<open>
  C2. The width \<open>parse\<close> charges for a field is 16 exactly when its \<open>showType\<close> is
  \<open>between\<close> and its \<open>dataType\<close> is \<open>datetime\<close>, and 8 in every other case; two fields
  that agree on \<open>showType\<close> and \<open>dataType\<close> are charged the same, whatever their other
  attributes; and one iteration of the loop takes exactly this width off the units left
  (of the fresh row, when the field opened one).
\<close>

theorem width_rule:
  "(spaceNeed field = 16 \<longleftrightarrow> showType field = ''between'' \<and> dataType field = ''datetime'') \<and>
   (spaceNeed field = 8 \<longleftrightarrow> \<not> (showType field = ''between'' \<and> dataType field = ''datetime'')) \<and>
   (showType other = showType field \<and> dataType other = dataType field \<longrightarrow>
      spaceNeed other = spaceNeed field) \<and>
   spaceLeft (parse_step st field) =
     (if spaceLeft st < spaceNeed field then 24 else spaceLeft st) - spaceNeed field"
proof -
  obtain c msgs where "transform field = (c, msgs)" by (cases "transform field")
  then have "spaceLeft (parse_step st field) =
     (if spaceLeft st < spaceNeed field then 24 else spaceLeft st) - spaceNeed field"
    by (simp add: parse_step_def new_row_def)
  then show ?thesis by (simp add: spaceNeed_def)
qed

text \<open>Two date ranges with different keys and titles, a number range and a text field.\<close>

theorem width_rule_witness:
  "showType updated_field = showType created_field \<and>
   dataType updated_field = dataType created_field \<and>
   key updated_field \<noteq> key created_field \<and>
   spaceNeed updated_field = 16 \<and> spaceNeed created_field = 16 \<and>
   spaceNeed age_field = 8 \<and> spaceNeed name_field = 8 \<and>
   spaceLeft (parse_step parse_init created_field) = 8"
  using width_rule [of created_field updated_field parse_init]
    width_rule [of age_field age_field parse_init]
  by (simp add: fixture_defs spaceNeed_def parse_init_def)

text \<open>
  C3. When no field of the schema is a \<open>between\<close>/\<open>datetime\<close> field, the entries of the
  plan, read row after row, are the columns of the schema's fields in schema order;
  every row but the last has exactly 3 entries, and every row, the last included, has
  between 1 and 3.
\<close>

theorem rows_of_three:
  assumes "\<forall>f \<in> set schema. \<not> (showType f = ''between'' \<and> dataType f = ''datetime'')"
  shows "concat (parse_rows schema) = map column schema \<and>
         (\<forall>r \<in> set (butlast (parse_rows schema)). length r = 3) \<and>
         (\<forall>r \<in> set (parse_rows schema). 1 \<le> length r \<and> length r \<le> 3)"
proof -
  from assms have "\<forall>f \<in> set schema. spaceNeed f = 8"
    by (simp add: spaceNeed_def)
  from field_rows_thirds [OF this] show ?thesis
    by (auto simp: parse_rows_field_rows concat_parse_rows [unfolded parse_rows_field_rows]
        map_butlast [symmetric])
qed

text \<open>Four fields of width 8: a row of three and a last row of one.\<close>

theorem rows_of_three_witness:
  "map length (parse_rows [name_field, city_field, age_field, email_field]) = [3, 1] \<and>
   concat (parse_rows [name_field, city_field, age_field, email_field]) =
     [column name_field, column city_field, column age_field, column email_field]"
proof -
  have "\<forall>f \<in> set [name_field, city_field, age_field, email_field].
      \<not> (showType f = ''between'' \<and> dataType f = ''datetime'')"
    by (simp add: fixture_defs)
  from rows_of_three [OF this] show ?thesis
    by (simp add: parse_rows_field_rows ghost_defs fixture_defs)
qed

text \<open>
  C8. No row of the plan is empty. The row break cannot fire on an empty row buffer:
  whenever, after any fields \<open>schema\<close> have been processed, the units left are fewer than
  the next field needs, the buffer \<open>cols\<close> holds at least one entry; a field needs at
  most 16 units and a fresh row has 24.
\<close>

theorem rows_nonempty:
  "(\<forall>r \<in> set (parse_rows schema). r \<noteq> []) \<and>
   (spaceLeft (parse_loop schema) < spaceNeed field \<longrightarrow> cols (parse_loop schema) \<noteq> []) \<and>
   spaceNeed field \<le> 16 \<and> spaceLeft parse_init = 24"
  using parse_rows_nonempty [of _ schema] close_needs_cols [of schema field]
    spaceNeed_cases [of field]
  by (auto simp: parse_init_def)

text \<open>After three fields of width 8 the row is full and the fourth field breaks it.\<close>

theorem rows_nonempty_witness:
  "map length (parse_rows [name_field, city_field, email_field, age_field]) = [3, 1] \<and>
   spaceLeft (parse_loop [name_field, city_field, email_field]) = 0 \<and>
   spaceNeed age_field = 8 \<and>
   length (cols (parse_loop [name_field, city_field, email_field])) = 3"
  using rows_nonempty [of "[name_field, city_field, email_field, age_field]" age_field]
    rows_nonempty [of "[name_field, city_field, email_field]" age_field]
  by (simp add: parse_rows_field_rows ghost_defs fixture_defs parse_loop_def parse_step_def
      new_row_def parse_init_def split: prod.splits)

section \<open>Properties of the rendered form\<close>

text \<open>
  C4. The claim: a \<open>between\<close> field with an unknown \<open>dataType\<close> is reported, dropped from
  the form, and the form still renders with all other widgets. What the code does on the
  schema of a text field followed by such a field: the error is logged and the packing
  goes on, but the row holds \<open>null\<close> in the field's place, and the render function, after
  registering the text field, calls that \<open>null\<close> and throws; no form is produced.
\<close>

theorem unknown_between_render_throws:
  "parse_log [name_field, score_field] =
     [LogDebug ''transform field %o to varchar input component'' name_field,
      LogError ''unknown dataType: %s'' ''varchar''] \<and>
   parse_rows [name_field, score_field] = [[column name_field, None]] \<and>
   parse [name_field, score_field] gfd = (Inl TypeError, [''name''])"
  by (simp add: loop_defs column_def transform_defs name_field_def score_field_def)

text \<open>
  C5, amended. For every schema with pairwise distinct keys in which no key of a
  non-\<open>between\<close> field is another field's key followed by \<open>Begin\<close> or \<open>End\<close>, and in
  which every \<open>between\<close> field has \<open>dataType\<close> \<open>int\<close>, \<open>float\<close> or \<open>datetime\<close>: rendering
  succeeds and registers, in schema order, the key of each non-\<open>between\<close> field and the
  key followed by \<open>Begin\<close> and by \<open>End\<close> of each \<open>between\<close> field; no key is registered
  twice; their number is one per non-\<open>between\<close> field plus two per \<open>between\<close> field.
\<close>

theorem registration_keys_supported:
  assumes "collision_free schema" and "\<forall>f \<in> set schema. supported f"
  shows "(\<exists>form. fst (parse schema gfd) = Inr form) \<and>
         snd (parse schema gfd) = concat (map reg_keys schema) \<and>
         distinct (snd (parse schema gfd)) \<and>
         length (snd (parse schema gfd)) =
           length (filter (\<lambda>f. showType f \<noteq> ''between'') schema) +
           2 * length (filter (\<lambda>f. showType f = ''between'') schema)"
  using parse_supported [OF assms(2), of gfd] reg_keys_distinct [OF assms(1)]
    reg_keys_count [of schema]
  by simp

text \<open>A text field, a number range and a date range: five keys.\<close>

theorem registration_keys_supported_witness:
  "collision_free [name_field, age_field, created_field] \<and>
   supported name_field \<and> supported age_field \<and> supported created_field \<and>
   snd (parse [name_field, age_field, created_field] plain_decorator) =
     [''name'', ''ageBegin'', ''ageEnd'', ''createdBegin'', ''createdEnd'']"
proof -
  have c: "collision_free [name_field, age_field, created_field]"
    by (simp add: collision_free_def fixture_defs)
  have s: "\<forall>f \<in> set [name_field, age_field, created_field]. supported f"
    by (simp add: supported_def fixture_defs)
  from registration_keys_supported [OF c s, of plain_decorator] c s show ?thesis
    by (simp add: reg_keys_def fixture_defs)
qed

text \<open>
  C5 as first stated fails on the schema of the single field \<open>score_field\<close>: its key is
  unique and collides with nothing, it is a \<open>between\<close> field, so two keys are due, and
  rendering registers none.
\<close>

theorem registration_keys_counterexample:
  "collision_free [score_field] \<and> showType score_field = ''between'' \<and>
   concat (map reg_keys [score_field]) = [''scoreBegin'', ''scoreEnd''] \<and>
   snd (parse [score_field] plain_decorator) = []"
  by (simp add: loop_defs transform_defs score_field_def collision_free_def reg_keys_def)

text \<open>
  C6. For the schema of one \<open>select\<close> field with the options \<open>a/A\<close> and \<open>b/B\<close>, whatever
  its other attributes: the plan has one row of one entry, and rendering yields the form
  with one row holding one cell, whose form item holds the dropdown handed to
  \<open>getFieldDecorator\<close> under the field's key; the dropdown offers exactly the option
  labelled \<open>A\<close> with value \<open>a\<close> and then the option labelled \<open>B\<close> with value \<open>b\<close>; the
  field's key is the only key registered.
\<close>

theorem select_example:
  "map length (parse_rows [ab_select f]) = [1] \<and>
   parse [ab_select f] gfd =
     (Inr (Element Form None [(''horizontal'', PBool True)]
        [Element Row (Some (KNum 0)) [(''gutter'', PNum 16)]
           [Element Col (Some (KStr (key f))) [(''sm'', PNum 8)]
              [Element FormItem (Some (KStr (key f)))
                 [(''label'', PStr (title f)), (''labelCol'', span 10), (''wrapperCol'', span 14)]
                 [gfd (key f)
                    (Element Select None
                       [(''placeholder'', PStr (js_or (placeholder f) please_select)),
                        (''size'', PStr ''default'')]
                       [Element SelectOption (Some (KStr ''a'')) [(''value'', PStr ''a'')]
                          [Text ''A''],
                        Element SelectOption (Some (KStr ''b'')) [(''value'', PStr ''b'')]
                          [Text ''B'']])]]]]),
      [key f])"
  by (simp add: loop_defs transform_defs select_options_def ab_select_def)

text \<open>The same with the key \<open>name\<close>.\<close>

theorem select_example_witness:
  "map length (parse_rows [ab_select name_field]) = [1] \<and>
   snd (parse [ab_select name_field] plain_decorator) = [''name'']"
  using select_example [of name_field plain_decorator]
  by (simp add: fixture_defs)

text \<open>
  C7. A \<open>between\<close> field of \<open>dataType\<close> \<open>int\<close> or \<open>float\<close> renders as one outer grid cell
  (\<open>Col\<close>, 8 units) holding an inner row of two cells side by side, each with a numeric
  input, registered under the field's key followed by \<open>Begin\<close> and by \<open>End\<close>. A
  \<open>between\<close> field of \<open>dataType\<close> \<open>datetime\<close> renders as two grid cells of 8 units each,
  each with a date-time picker, registered under the same two keys; the two cells are not
  inside a cell but inside one plain \<open>div\<close>. It is the only field with two outermost
  cells: the output of every other producer is a single cell of 8 units.
\<close>

theorem between_cells:
  "run_column (as_between f ''int'') gfd =
     Some (Element Col (Some (KStr (key f @ ''Begin''))) [(''sm'', PNum 8)]
       [Element Row None []
          [Element Col None [(''span'', PNum 16)]
             [Element FormItem (Some (KStr (key f @ ''Begin'')))
                [(''label'', PStr (title f)), (''labelCol'', span 15), (''wrapperCol'', span 9)]
                [gfd (key f @ ''Begin'')
                   (Element InputNumber None
                      [(''size'', PStr ''default''),
                       (''placeholder'', PStr (js_or (placeholderBegin f) min_value))] [])]],
           Element Col None [(''span'', PNum 7), (''offset'', PNum 1)]
             [Element FormItem (Some (KStr (key f @ ''End'')))
                [(''labelCol'', span 10), (''wrapperCol'', span 14)]
                [gfd (key f @ ''End'')
                   (Element InputNumber None
                      [(''size'', PStr ''default''),
                       (''placeholder'', PStr (js_or (placeholderEnd f) max_value))] [])]]]],
       [key f @ ''Begin'', key f @ ''End'']) \<and>
   run_column (as_between f ''float'') gfd =
     Some (Element Col (Some (KStr (key f @ ''Begin''))) [(''sm'', PNum 8)]
       [Element Row None []
          [Element Col None [(''span'', PNum 16)]
             [Element FormItem (Some (KStr (key f @ ''Begin'')))
                [(''label'', PStr (title f)), (''labelCol'', span 15), (''wrapperCol'', span 9)]
                [gfd (key f @ ''Begin'')
                   (Element InputNumber None
                      [(''step'', PDecimal 1 2), (''size'', PStr ''default''),
                       (''placeholder'', PStr (js_or (placeholderBegin f) min_value))] [])]],
           Element Col None [(''span'', PNum 7), (''offset'', PNum 1)]
             [Element FormItem (Some (KStr (key f @ ''End'')))
                [(''labelCol'', span 10), (''wrapperCol'', span 14)]
                [gfd (key f @ ''End'')
                   (Element InputNumber None
                      [(''step'', PDecimal 1 2), (''size'', PStr ''default''),
                       (''placeholder'', PStr (js_or (placeholderEnd f) max_value))] [])]]]],
       [key f @ ''Begin'', key f @ ''End'']) \<and>
   run_column (as_between f ''datetime'') gfd =
     Some (Element Div (Some (KStr ''datetimeBetweenDiv'')) []
       [Element Col (Some (KStr (key f @ ''Begin''))) [(''sm'', PNum 8)]
          [Element FormItem (Some (KStr (key f @ ''Begin'')))
             [(''label'', PStr (title f)), (''labelCol'', span 10), (''wrapperCol'', span 14)]
             [gfd (key f @ ''Begin'')
                (Element DatePicker None
                   [(''showTime'', PBool True), (''format'', PStr datetime_format),
                    (''placeholder'', PStr (js_or (placeholderBegin f) begin_date))] [])]],
        Element Col (Some (KStr (key f @ ''End''))) [(''sm'', PNum 8)]
          [Element FormItem (Some (KStr (key f @ ''End'')))
             [(''labelCol'', span 10), (''wrapperCol'', span 14)]
             [gfd (key f @ ''End'')
                (Element DatePicker None
                   [(''showTime'', PBool True), (''format'', PStr datetime_format),
                    (''placeholder'', PStr (js_or (placeholderEnd f) end_date))] [])]]],
       [key f @ ''Begin'', key f @ ''End'']) \<and>
   (run_column g gfd = Some (e, ks) \<longrightarrow>
      (if datetime_between g
       then etag e = Div \<and> map etag (echildren e) = [Col, Col] \<and>
            map eprops (echildren e) = [[(''sm'', PNum 8)], [(''sm'', PNum 8)]]
       else etag e = Col \<and> eprops e = [(''sm'', PNum 8)]))"
  by (auto simp: run_column_def column_def as_between_def datetime_between_def transform_defs
      split: if_splits)

text \<open>A number range, a date range and a text field.\<close>

theorem between_cells_witness:
  "(\<exists>e. run_column age_field plain_decorator = Some (e, [''ageBegin'', ''ageEnd'']) \<and>
        etag e = Col \<and> eprops e = [(''sm'', PNum 8)]) \<and>
   (\<exists>e. run_column created_field plain_decorator =
          Some (e, [''createdBegin'', ''createdEnd'']) \<and>
        etag e = Div \<and> map etag (echildren e) = [Col, Col]) \<and>
   (\<exists>e. run_column name_field plain_decorator = Some (e, [''name'']) \<and> etag e = Col)"
  using between_cells [of age_field plain_decorator age_field
      "fst (the (run_column age_field plain_decorator))" "[''ageBegin'', ''ageEnd'']"]
  by (simp add: run_column_def column_def transform_defs fixture_defs)

text \<open>
  C9. For every schema that contains a \<open>between\<close> field \<open>f\<close> whose \<open>dataType\<close> is none of
  \<open>int\<close>, \<open>float\<close> and \<open>datetime\<close>: \<open>parse\<close> builds its plan all the same, with \<open>null\<close> at
  the position of \<open>f\<close>; \<open>f\<close> is charged 8 units, so the rows have the lengths they would
  have with any field \<open>g\<close> of width 8 in its place; and the returned render function,
  applied to any \<open>getFieldDecorator\<close>, throws the \<open>TypeError\<close> of calling \<open>null\<close>.
\<close>

theorem null_producer_breaks_render:
  assumes "showType f = ''between''" and "dataType f \<notin> {''int'', ''float'', ''datetime''}"
  shows "column f = None \<and> spaceNeed f = 8 \<and>
         concat (parse_rows (pre @ f # post)) ! length pre = None \<and>
         (spaceNeed g = 8 \<longrightarrow>
            map length (parse_rows (pre @ f # post)) = map length (parse_rows (pre @ g # post))) \<and>
         fst (parse (pre @ f # post) gfd) = Inl TypeError"
proof -
  from assms have ns: "\<not> supported f" by (simp add: supported_def)
  then have c: "column f = None" by (simp add: column_None)
  from assms have w: "spaceNeed f = 8" by (auto simp: spaceNeed_def)
  have "concat (parse_rows (pre @ f # post)) ! length pre = column f"
    by (simp add: concat_parse_rows nth_append)
  moreover have "fst (parse (pre @ f # post) gfd) = Inl TypeError"
    by (rule parse_null [OF _ ns]) simp
  moreover have "spaceNeed g = 8 \<longrightarrow>
      map length (parse_rows (pre @ f # post)) = map length (parse_rows (pre @ g # post))"
    using w by (auto intro: row_lengths_widths)
  ultimately show ?thesis using c w by simp
qed

text \<open>
  The unsupported field in third place: the fourth field is pushed to a second row as it
  would be after a number range, and rendering stops after the first two keys.
\<close>

theorem null_producer_breaks_render_witness:
  "showType score_field = ''between'' \<and>
   dataType score_field \<notin> {''int'', ''float'', ''datetime''} \<and>
   spaceNeed age_field = 8 \<and>
   map length (parse_rows [name_field, city_field, score_field, email_field]) = [3, 1] \<and>
   map length (parse_rows [name_field, city_field, age_field, email_field]) = [3, 1] \<and>
   parse [name_field, city_field, score_field, email_field] plain_decorator =
     (Inl TypeError, [''name'', ''city''])"
proof -
  have a: "showType score_field = ''between''"
    and b: "dataType score_field \<notin> {''int'', ''float'', ''datetime''}"
    by (simp_all add: fixture_defs)
  from null_producer_breaks_render [OF a b, of "[name_field, city_field]" "[email_field]"
      age_field plain_decorator] a b
  show ?thesis
    by (simp add: loop_defs transform_defs fixture_defs)
qed

text \<open>
  C10. The container that a \<open>between\<close>/\<open>datetime\<close> field renders to carries the key
  \<open>datetimeBetweenDiv\<close>, whatever the field's key. Hence, when a schema holds two or more
  such fields and the form renders, the keys of the elements in its rows are not
  pairwise distinct.
\<close>

theorem datetime_container_key_constant:
  "(datetime_between f \<longrightarrow>
      (\<exists>e ks. run_column f gfd = Some (e, ks) \<and>
         ekey e = Some (KStr ''datetimeBetweenDiv''))) \<and>
   (2 \<le> length (filter datetime_between schema) \<and> fst (parse schema gfd) = Inr form \<longrightarrow>
      \<not> distinct (cell_keys form))"
proof (intro conjI impI)
  assume "datetime_between f"
  then show "\<exists>e ks. run_column f gfd = Some (e, ks) \<and>
      ekey e = Some (KStr ''datetimeBetweenDiv'')"
    by (simp add: datetime_between_def run_column_def column_def transform_defs)
next
  assume a: "2 \<le> length (filter datetime_between schema) \<and> fst (parse schema gfd) = Inr form"
  have "\<forall>f \<in> set schema. supported f"
  proof (rule ccontr)
    assume "\<not> (\<forall>f \<in> set schema. supported f)"
    then obtain g where "g \<in> set schema" "\<not> supported g" by auto
    from parse_null [OF this, of gfd] a show False by simp
  qed
  from parse_supported [OF this, of gfd] a
  have "form = Element Form None [(''horizontal'', PBool True)]
      (row_elems gfd 0 (field_rows schema))"
    by simp
  then have "cell_keys form = map (\<lambda>f. ekey (cell_of gfd f)) schema"
    by (simp add: cell_keys_def row_elems_keys concat_field_rows)
  moreover have "\<not> distinct (map (\<lambda>f. ekey (cell_of gfd f)) schema)"
    by (rule two_equal_not_distinct
          [where P = datetime_between and c = "Some (KStr ''datetimeBetweenDiv'')"])
       (use a in \<open>simp_all add: cell_of_datetime\<close>)
  ultimately show "\<not> distinct (cell_keys form)" by simp
qed

text \<open>
  Two date ranges with the keys \<open>created\<close> and \<open>updated\<close>: the four registration keys
  differ, the two containers share their key.
\<close>

theorem datetime_container_key_constant_witness:
  "datetime_between created_field \<and> datetime_between updated_field \<and>
   key created_field \<noteq> key updated_field \<and>
   distinct (snd (parse [created_field, updated_field] plain_decorator)) \<and>
   (\<exists>form. fst (parse [created_field, updated_field] plain_decorator) = Inr form \<and>
      cell_keys form =
        [Some (KStr ''datetimeBetweenDiv''), Some (KStr ''datetimeBetweenDiv'')] \<and>
      \<not> distinct (cell_keys form))"
  using datetime_container_key_constant [of created_field plain_decorator
      "[created_field, updated_field]"
      "projr (fst (parse [created_field, updated_field] plain_decorator))"]
  by (simp add: loop_defs transform_defs fixture_defs datetime_between_def cell_keys_def)

end
